theory Spec2Isabelle
  imports Complex_Main "HOL-Library.Word"
begin

unbundle bit_operations_syntax

section \<open>AP\_Mission: data model of AP\_Mission.h\<close>

text \<open>
  The embedding follows \<^verbatim>\<open>libraries/AP_Mission/AP_Mission.h\<close>. Unsigned 16-bit
  quantities (\<^verbatim>\<open>uint16_t\<close>) are \<^typ>\<open>16 word\<close>, bytes are \<^typ>\<open>8 word\<close>;
  an \<^verbatim>\<open>int16_t\<close> is a \<^typ>\<open>16 word\<close> read with \<^const>\<open>sint\<close>.
\<close>

type_synonym byte = "8 word"

subsection \<open>Constants\<close>

definition AP_MISSION_CMD_ID_NONE :: "16 word" where
  "AP_MISSION_CMD_ID_NONE = 0"

definition AP_MISSION_CMD_INDEX_NONE :: "16 word" where
  "AP_MISSION_CMD_INDEX_NONE = 65535"

definition AP_MISSION_FIRST_REAL_COMMAND :: nat where
  "AP_MISSION_FIRST_REAL_COMMAND = 1"

definition AP_MISSION_MAX_WP_HISTORY :: nat where
  "AP_MISSION_MAX_WP_HISTORY = 7"

definition LAST_WP_PASSED :: nat where
  "LAST_WP_PASSED = AP_MISSION_MAX_WP_HISTORY - 2"

subsection \<open>Commands\<close>

text \<open>\<^verbatim>\<open>struct PACKED Jump_Command { uint16_t target; int16_t num_times; }\<close>\<close>

record Jump_Command =
  target :: "16 word"
  num_times :: "16 word"

text \<open>
  \<^verbatim>\<open>union Content\<close>: all members share one storage. None of the functions below
  reads a member of the union; it is represented by what the member \<^verbatim>\<open>jump\<close> shows
  of that storage.
\<close>

record Content =
  jump :: Jump_Command

text \<open>
  \<^verbatim>\<open>struct Mission_Command\<close>. The field \<^verbatim>\<open>id\<close> is named \<open>cmd_id\<close> here, since
  \<open>id\<close> is the identity function of HOL.
\<close>

record Mission_Command =
  index :: "16 word"
  cmd_id :: "16 word"
  p1 :: "16 word"
  content :: Content
  type_specific_bits :: byte

subsection \<open>Engine state\<close>

text \<open>
  The members of \<^verbatim>\<open>class AP_Mission\<close> that the functions below read or write
  (the leading underscore of the C++ names is dropped).
\<close>

record AP_Mission =
  nav_cmd :: Mission_Command
  do_cmd :: Mission_Command
  prev_nav_cmd_id :: "16 word"
  prev_nav_cmd_index :: "16 word"
  prev_nav_cmd_wp_index :: "16 word"
  wp_index_history :: "16 word list"

text \<open>
  The constructor. Its members \<^verbatim>\<open>_nav_cmd\<close> and \<^verbatim>\<open>_do_cmd\<close> are
  default-initialised: the union's default member initialiser \<^verbatim>\<open>Location location{}\<close>
  sets \<^verbatim>\<open>content\<close>, while \<^verbatim>\<open>index\<close>, \<^verbatim>\<open>id\<close>, \<^verbatim>\<open>p1\<close> and
  \<^verbatim>\<open>type_specific_bits\<close> keep whatever the object's memory held, which is the
  argument \<open>m\<close>. The member initialisers set the three \<^verbatim>\<open>_prev_nav_cmd\<close> fields.
  The body panics (\<^verbatim>\<open>AP_HAL::panic("Mission must be singleton")\<close>) when the build
  is for the SITL board and \<^verbatim>\<open>_singleton\<close> is already set, and otherwise clears the
  indices of \<^verbatim>\<open>_nav_cmd\<close> and \<^verbatim>\<open>_do_cmd\<close>.

  Three things the header does not fix are parameters: \<open>board_is_sitl\<close> is
  \<^verbatim>\<open>CONFIG_HAL_BOARD == HAL_BOARD_SITL\<close>, \<open>singleton_set\<close> is
  \<^verbatim>\<open>_singleton != nullptr\<close> on entry, and \<open>location_init\<close> is the union as
  \<^verbatim>\<open>Location location{}\<close> leaves it (\<^verbatim>\<open>Location\<close> is not among the sources).
  The parameter defaults that \<^verbatim>\<open>AP_Param::setup_object_defaults\<close> loads concern
  members that are not part of \<open>AP_Mission\<close> above.
\<close>

datatype panic = Mission_must_be_singleton

definition AP_Mission_constructor ::
  "bool \<Rightarrow> bool \<Rightarrow> Content \<Rightarrow> AP_Mission \<Rightarrow> panic + AP_Mission" where
  "AP_Mission_constructor board_is_sitl singleton_set location_init m =
     (if board_is_sitl \<and> singleton_set then Inl Mission_must_be_singleton
      else Inr (m\<lparr>
        prev_nav_cmd_id := AP_MISSION_CMD_ID_NONE,
        prev_nav_cmd_index := AP_MISSION_CMD_INDEX_NONE,
        prev_nav_cmd_wp_index := AP_MISSION_CMD_INDEX_NONE,
        nav_cmd := (nav_cmd m)\<lparr> content := location_init,
                                index := AP_MISSION_CMD_INDEX_NONE \<rparr>,
        do_cmd := (do_cmd m)\<lparr> content := location_init,
                              index := AP_MISSION_CMD_INDEX_NONE \<rparr> \<rparr>))"

text \<open>
  \<^verbatim>\<open>uint16_t get_current_nav_index() const
  { return _nav_cmd.index==AP_MISSION_CMD_INDEX_NONE?0:_nav_cmd.index; }\<close>
\<close>

definition get_current_nav_index :: "AP_Mission \<Rightarrow> 16 word" where
  "get_current_nav_index m =
     (if index (nav_cmd m) = AP_MISSION_CMD_INDEX_NONE then 0 else index (nav_cmd m))"

text \<open>Commands used as concrete inputs: command \<open>cid\<close> at list position \<open>i\<close>, whose
  \<^verbatim>\<open>content.jump\<close> reads as target \<open>tgt\<close> and repeat count \<open>cnt\<close>.\<close>

definition mk_cmd :: "16 word \<Rightarrow> 16 word \<Rightarrow> 16 word \<Rightarrow> 16 word \<Rightarrow> Mission_Command" where
  "mk_cmd i cid tgt cnt =
     \<lparr> index = i, cmd_id = cid, p1 = 0,
       content = \<lparr> jump = \<lparr> target = tgt, num_times = cnt \<rparr> \<rparr>,
       type_specific_bits = 0 \<rparr>"

definition mk_mission :: "Mission_Command \<Rightarrow> AP_Mission" where
  "mk_mission c =
     \<lparr> nav_cmd = c, do_cmd = c, prev_nav_cmd_id = 0, prev_nav_cmd_index = 0,
       prev_nav_cmd_wp_index = 0, wp_index_history = [] \<rparr>"

subsection \<open>Loiter turns\<close>

text \<open>
  Modelled from the spec: the macro \<^verbatim>\<open>LOWBYTE\<close>, whose definition is in a header that
  is not among the sources; it yields the low byte of its argument.
\<close>

definition LOWBYTE :: "16 word \<Rightarrow> byte" where
  "LOWBYTE i = ucast i"

text \<open>
  \<^verbatim>\<open>float get_loiter_turns(void) const {
      float turns = LOWBYTE(p1);
      if (type_specific_bits & (1U<<1)) { turns *= (1.0/256.0); }
      return turns; }\<close>

  The \<^verbatim>\<open>float\<close> is modelled by the real number it denotes. No rounding takes place:
  the conversion of an integer below 256 is exact, and so is the product with the power
  of two \<open>1/256\<close> (lemma \<open>get_loiter_turns_exact\<close> below: every result is \<open>m\<close> or
  \<open>m / 2^8\<close> for a natural number \<open>m\<close> below \<open>2^24\<close>, a value of the binary32 format).
  \<^verbatim>\<open>type_specific_bits\<close> is promoted to 32 bits for the test against \<^verbatim>\<open>1U<<1\<close>.
\<close>

definition get_loiter_turns :: "Mission_Command \<Rightarrow> real" where
  "get_loiter_turns cmd =
     (let turns = real (unat (LOWBYTE (p1 cmd)))
      in if (ucast (type_specific_bits cmd) :: 32 word) AND push_bit 1 1 \<noteq> 0
         then turns * (1 / 256)
         else turns)"

subsection \<open>Comparison of commands\<close>

text \<open>
  \<^verbatim>\<open>memcmp(s1, s2, n)\<close> of the C library: the first \<open>n\<close> bytes of both objects are
  compared as unsigned bytes; the result is 0 when all are equal and otherwise has the
  sign of the difference at the first position where they differ. Reading past the
  end of an object is undefined in C: \<open>None\<close> here.
\<close>

fun memcmp :: "byte list \<Rightarrow> byte list \<Rightarrow> nat \<Rightarrow> int option" where
  "memcmp s1 s2 0 = Some 0"
| "memcmp (x # xs) (y # ys) (Suc n) =
     (if x = y then memcmp xs ys n else Some (int (unat x) - int (unat y)))"
| "memcmp s1 s2 (Suc n) = None"

text \<open>
  \<^verbatim>\<open>bool operator ==(const Mission_Command &b) const
  { return (memcmp(this, &b, sizeof(Mission_Command)) == 0); }\<close>
  \<^verbatim>\<open>bool operator !=(const Mission_Command &b) const { return !operator==(b); }\<close>

  The comparison reads the object representation, so here a \<^verbatim>\<open>Mission_Command\<close> is
  the list of the bytes it occupies: those of its fields, of every member of the union,
  and the padding between them. \<^verbatim>\<open>sizeof(Mission_Command)\<close> depends on the layout of
  \<^verbatim>\<open>Location\<close>, which is not among the sources, and is a parameter.
\<close>

definition operator_eq :: "nat \<Rightarrow> byte list \<Rightarrow> byte list \<Rightarrow> bool" where
  "operator_eq sizeof_Mission_Command this b =
     (memcmp this b sizeof_Mission_Command = Some 0)"

definition operator_ne :: "nat \<Rightarrow> byte list \<Rightarrow> byte list \<Rightarrow> bool" where
  "operator_ne sizeof_Mission_Command this b =
     (\<not> operator_eq sizeof_Mission_Command this b)"

subsection \<open>Waypoint history\<close>

text \<open>
  Modelled from the spec: the push of a navigation-command index into
  \<^verbatim>\<open>_wp_index_history\<close>; it is part of \<^verbatim>\<open>AP_Mission.cpp\<close>, which is not among the
  sources. The spec describes a fixed-size history of \<^verbatim>\<open>AP_MISSION_MAX_WP_HISTORY\<close>
  entries in visitation order in which a push overwrites the oldest entry. The header
  fixes the order of the slots: \<^verbatim>\<open>LAST_WP_PASSED\<close> is the constant slot
  \<^verbatim>\<open>AP_MISSION_MAX_WP_HISTORY-2\<close>, so the newest index is in the last slot and a push
  moves every entry one slot down, dropping the one in slot 0.
\<close>

definition push_wp_history :: "16 word list \<Rightarrow> 16 word \<Rightarrow> 16 word list" where
  "push_wp_history h idx =
     map (\<lambda>i. h ! Suc i) [0..<AP_MISSION_MAX_WP_HISTORY - 1] @ [idx]"

section \<open>Current navigation index\<close>

text \<open>
  C9. When no navigation command is loaded, that is when the index of the current
  navigation command is the sentinel 65535, \<open>get_current_nav_index\<close> returns 0 and not
  the sentinel; otherwise it returns the index of the current navigation command
  unchanged. A freshly constructed engine is in the first case: the constructor either
  panics, which it does only on the SITL board with the singleton already set, or
  leaves an engine for which \<open>get_current_nav_index\<close> returns 0.
\<close>

theorem get_current_nav_index_none_or_index:
  "(index (nav_cmd m) = 65535 \<longrightarrow> get_current_nav_index m = 0)
   \<and> (index (nav_cmd m) \<noteq> 65535 \<longrightarrow> get_current_nav_index m = index (nav_cmd m))
   \<and> (case AP_Mission_constructor board_is_sitl singleton_set location_init m of
          Inl e \<Rightarrow> board_is_sitl \<and> singleton_set
        | Inr m' \<Rightarrow> get_current_nav_index m' = 0
                    \<and> index (nav_cmd m') = AP_MISSION_CMD_INDEX_NONE
                    \<and> index (do_cmd m') = AP_MISSION_CMD_INDEX_NONE)
   \<and> AP_MISSION_CMD_INDEX_NONE = 65535"
  by (simp add: get_current_nav_index_def AP_Mission_constructor_def
      AP_MISSION_CMD_INDEX_NONE_def)

theorem get_current_nav_index_none_or_index_witness:
  "index (nav_cmd (mk_mission (mk_cmd 65535 0 0 0))) = 65535
   \<and> get_current_nav_index (mk_mission (mk_cmd 65535 0 0 0)) = 0
   \<and> index (nav_cmd (mk_mission (mk_cmd 3 16 0 0))) \<noteq> 65535
   \<and> get_current_nav_index (mk_mission (mk_cmd 3 16 0 0)) = 3
   \<and> AP_Mission_constructor True True (content (mk_cmd 0 0 0 0))
         (mk_mission (mk_cmd 3 16 0 0)) = Inl Mission_must_be_singleton
   \<and> (case AP_Mission_constructor False False (content (mk_cmd 0 0 0 0))
              (mk_mission (mk_cmd 3 16 0 0)) of
          Inl e \<Rightarrow> False
        | Inr m' \<Rightarrow> get_current_nav_index m' = 0)"
proof -
  have panics: "AP_Mission_constructor True True (content (mk_cmd 0 0 0 0))
      (mk_mission (mk_cmd 3 16 0 0)) = Inl Mission_must_be_singleton"
    by (simp add: AP_Mission_constructor_def)
  have "\<exists>m'. AP_Mission_constructor False False (content (mk_cmd 0 0 0 0))
      (mk_mission (mk_cmd 3 16 0 0)) = Inr m'"
    by (simp add: AP_Mission_constructor_def)
  then obtain m' where built: "AP_Mission_constructor False False (content (mk_cmd 0 0 0 0))
      (mk_mission (mk_cmd 3 16 0 0)) = Inr m'"
    by blast
  from get_current_nav_index_none_or_index
    [of "mk_mission (mk_cmd 3 16 0 0)" False False "content (mk_cmd 0 0 0 0)"] built
  have fresh: "get_current_nav_index m' = 0"
    by simp
  have none: "index (nav_cmd (mk_mission (mk_cmd 65535 0 0 0))) = 65535"
    by (simp add: mk_mission_def mk_cmd_def)
  have loaded: "index (nav_cmd (mk_mission (mk_cmd 3 16 0 0))) = 3"
    by (simp add: mk_mission_def mk_cmd_def)
  then have ne: "index (nav_cmd (mk_mission (mk_cmd 3 16 0 0))) \<noteq> 65535"
    by simp
  from get_current_nav_index_none_or_index [of "mk_mission (mk_cmd 65535 0 0 0)"] none
  have "get_current_nav_index (mk_mission (mk_cmd 65535 0 0 0)) = 0"
    by blast
  moreover
  from get_current_nav_index_none_or_index [of "mk_mission (mk_cmd 3 16 0 0)"] ne
  have "get_current_nav_index (mk_mission (mk_cmd 3 16 0 0))
      = index (nav_cmd (mk_mission (mk_cmd 3 16 0 0)))"
    by blast
  ultimately show ?thesis using none ne loaded panics built fresh by simp
qed

section \<open>Loiter turns\<close>

lemma and_bit1: "((w :: 'a::len word) AND push_bit 1 1 \<noteq> 0) = bit w 1"
  using and_exp_eq_0_iff_not_bit [of w 1] by (simp add: push_bit_eq_mult)

lemma type_specific_bit1:
  "((ucast (b :: byte) :: 32 word) AND push_bit 1 1 \<noteq> 0) = bit b 1"
  unfolding and_bit1 by (simp add: bit_ucast_iff)

lemma unat_LOWBYTE: "unat (LOWBYTE w) = unat w mod 256"
  by (simp add: LOWBYTE_def unsigned_ucast_eq take_bit_eq_mod unsigned_take_bit_eq)

lemma get_loiter_turns_exact:
  "\<exists>m < 2 ^ 24. get_loiter_turns cmd = real m \<or> get_loiter_turns cmd = real m / 2 ^ 8"
proof -
  let ?n = "unat (LOWBYTE (p1 cmd))"
  have "?n = unat (p1 cmd) mod 256" by (rule unat_LOWBYTE)
  then have "?n < 2 ^ 24" by simp
  moreover have "get_loiter_turns cmd = real ?n \<or> get_loiter_turns cmd = real ?n / 2 ^ 8"
    unfolding get_loiter_turns_def Let_def type_specific_bit1 by simp
  ultimately show ?thesis by blast
qed

text \<open>
  C10. \<open>get_loiter_turns\<close> returns the low byte of \<open>p1\<close> as a number, multiplied by
  \<open>1/256\<close> exactly when bit 1 of \<open>type_specific_bits\<close> is set; the result is never
  negative and never above 255.
\<close>

theorem get_loiter_turns_low_byte_scaled:
  "get_loiter_turns cmd =
     (if bit (type_specific_bits cmd) 1
      then real (unat (LOWBYTE (p1 cmd))) * (1 / 256)
      else real (unat (LOWBYTE (p1 cmd))))
   \<and> unat (LOWBYTE (p1 cmd)) = unat (p1 cmd) mod 256
   \<and> 0 \<le> get_loiter_turns cmd \<and> get_loiter_turns cmd \<le> 255"
proof -
  let ?n = "unat (LOWBYTE (p1 cmd))"
  have n: "?n = unat (p1 cmd) mod 256" by (rule unat_LOWBYTE)
  then have le: "?n \<le> 255" by simp
  have v: "get_loiter_turns cmd =
      (if bit (type_specific_bits cmd) 1 then real ?n * (1 / 256) else real ?n)"
    unfolding get_loiter_turns_def Let_def type_specific_bit1 by simp
  have "0 \<le> real ?n" "real ?n \<le> 255" using le by linarith+
  then have "0 \<le> get_loiter_turns cmd \<and> get_loiter_turns cmd \<le> 255"
    unfolding v by auto
  with v n show ?thesis by blast
qed

section \<open>Comparison of commands\<close>

lemma memcmp_zero_iff:
  "n \<le> length a \<Longrightarrow> n \<le> length b \<Longrightarrow> (memcmp a b n = Some 0) = (take n a = take n b)"
proof (induction a b n rule: memcmp.induct)
  case (2 x xs y ys n)
  have "x \<noteq> y \<Longrightarrow> int (unat x) - int (unat y) \<noteq> 0"
    by (simp add: word_uint_eq_iff)
  with 2 show ?case by auto
qed simp_all

lemma memcmp_in_range: "n \<le> length a \<Longrightarrow> n \<le> length b \<Longrightarrow> memcmp a b n \<noteq> None"
  by (induction a b n rule: memcmp.induct) auto

text \<open>
  C8. For two commands \<open>a\<close> and \<open>b\<close>, each given by the \<open>n = sizeof(Mission_Command)\<close>
  bytes of its object representation, \<open>a == b\<close> holds exactly when \<open>memcmp\<close> over the
  \<open>n\<close> bytes returns 0, which is exactly when every one of the \<open>n\<close> bytes matches,
  whatever the byte belongs to (a field, an inactive union member, padding); and
  \<open>a != b\<close> is the negation of \<open>a == b\<close>.
\<close>

theorem operator_eq_bytewise:
  assumes "length a = n" and "length b = n"
  shows "(operator_eq n a b \<longleftrightarrow> (\<forall>i<n. a ! i = b ! i))
       \<and> (operator_eq n a b \<longleftrightarrow> memcmp a b n = Some 0)
       \<and> (operator_ne n a b \<longleftrightarrow> \<not> operator_eq n a b)"
proof -
  have "(memcmp a b n = Some 0) = (a = b)"
    using memcmp_zero_iff [of n a b] assms by simp
  also have "\<dots> = (\<forall>i<n. a ! i = b ! i)"
    using assms by (simp add: list_eq_iff_nth_eq)
  finally show ?thesis
    by (simp add: operator_eq_def operator_ne_def)
qed

theorem operator_eq_bytewise_witness:
  "length [1, 2, 3, 4 :: byte] = 4
   \<and> operator_eq 4 [1, 2, 3, 4] [1, 2, 3, 4]
   \<and> \<not> operator_eq 4 [1, 2, 3, 4] [1, 2, 3, 5]
   \<and> operator_ne 4 [1, 2, 3, 4] [1, 2, 3, 5]"
proof -
  have la: "length [1, 2, 3, 4 :: byte] = 4" and lb: "length [1, 2, 3, 5 :: byte] = 4"
    by simp_all
  have same: "\<forall>i<4. [1, 2, 3, 4 :: byte] ! i = [1, 2, 3, 4] ! i"
    by simp
  have differ: "\<not> (\<forall>i<4. [1, 2, 3, 4 :: byte] ! i = [1, 2, 3, 5] ! i)"
  proof -
    have "[1, 2, 3, 4 :: byte] ! 3 \<noteq> [1, 2, 3, 5] ! 3" by simp
    moreover have "(3::nat) < 4" by simp
    ultimately show ?thesis by blast
  qed
  from operator_eq_bytewise [OF la la] same
  have "operator_eq 4 [1, 2, 3, 4] [1, 2, 3, 4]" by blast
  moreover from operator_eq_bytewise [OF la lb] differ
  have "\<not> operator_eq 4 [1, 2, 3, 4] [1, 2, 3, 5]" and "operator_ne 4 [1, 2, 3, 4] [1, 2, 3, 5]"
    by blast+
  ultimately show ?thesis using la by blast
qed

section \<open>Waypoint history\<close>

lemma length_push_wp_history:
  "length (push_wp_history h idx) = AP_MISSION_MAX_WP_HISTORY"
  by (simp add: push_wp_history_def AP_MISSION_MAX_WP_HISTORY_def)

lemma push_wp_history_shift:
  assumes "length h = AP_MISSION_MAX_WP_HISTORY"
  shows "push_wp_history h idx = tl h @ [idx]"
proof -
  have "map (\<lambda>i. h ! Suc i) [0..<length h - 1] = tl h"
    by (rule nth_equalityI) (simp_all add: nth_tl)
  with assms show ?thesis by (simp add: push_wp_history_def)
qed

text \<open>After a push the newest index is in the last slot and the one pushed before it in
  slot \<^verbatim>\<open>LAST_WP_PASSED\<close>.\<close>

lemma push_wp_history_last_passed:
  assumes "length h = AP_MISSION_MAX_WP_HISTORY"
  shows "push_wp_history h idx ! (AP_MISSION_MAX_WP_HISTORY - 1) = idx"
    and "push_wp_history h idx ! LAST_WP_PASSED = h ! (AP_MISSION_MAX_WP_HISTORY - 1)"
  using assms
  by (simp_all add: push_wp_history_def AP_MISSION_MAX_WP_HISTORY_def LAST_WP_PASSED_def
      nth_append)

lemma foldl_push_wp_history:
  "length h = AP_MISSION_MAX_WP_HISTORY \<Longrightarrow>
   foldl push_wp_history h xs = drop (length xs) (h @ xs)"
proof (induction xs arbitrary: h)
  case Nil
  then show ?case by simp
next
  case (Cons x xs)
  have len: "length (push_wp_history h x) = AP_MISSION_MAX_WP_HISTORY"
    by (rule length_push_wp_history)
  have "h \<noteq> []" using Cons.prems by (auto simp: AP_MISSION_MAX_WP_HISTORY_def)
  then have "drop (length xs) (tl h @ [x] @ xs) = drop (Suc (length xs)) (h @ x # xs)"
    by (cases h) simp_all
  then show ?case
    using Cons.IH [OF len] push_wp_history_shift [OF Cons.prems, of x] by simp
qed

text \<open>
  C7. After the indices \<open>xs\<close> have been pushed, more of them than the history has slots,
  the history holds exactly the last \<^verbatim>\<open>AP_MISSION_MAX_WP_HISTORY\<close> of them in the order
  in which they were pushed: every older entry has been overwritten. The capacity is 7.
\<close>

theorem wp_history_retains_most_recent:
  assumes "length h = AP_MISSION_MAX_WP_HISTORY"
    and "AP_MISSION_MAX_WP_HISTORY < length xs"
  shows "foldl push_wp_history h xs = drop (length xs - AP_MISSION_MAX_WP_HISTORY) xs
       \<and> length (foldl push_wp_history h xs) = AP_MISSION_MAX_WP_HISTORY
       \<and> AP_MISSION_MAX_WP_HISTORY = 7"
proof -
  have "foldl push_wp_history h xs = drop (length xs) (h @ xs)"
    using assms(1) by (rule foldl_push_wp_history)
  also have "\<dots> = drop (length xs - AP_MISSION_MAX_WP_HISTORY) xs"
    using assms by simp
  finally have eq:
    "foldl push_wp_history h xs = drop (length xs - AP_MISSION_MAX_WP_HISTORY) xs" .
  moreover have
    "length (drop (length xs - AP_MISSION_MAX_WP_HISTORY) xs) = AP_MISSION_MAX_WP_HISTORY"
    using assms(2) by simp
  ultimately show ?thesis by (simp add: AP_MISSION_MAX_WP_HISTORY_def)
qed

theorem wp_history_retains_most_recent_witness:
  "length [65535, 65535, 65535, 65535, 65535, 65535, 65535 :: 16 word]
     = AP_MISSION_MAX_WP_HISTORY
   \<and> AP_MISSION_MAX_WP_HISTORY < length [1, 2, 3, 4, 5, 6, 7, 8, 9 :: 16 word]
   \<and> foldl push_wp_history [65535, 65535, 65535, 65535, 65535, 65535, 65535]
        [1, 2, 3, 4, 5, 6, 7, 8, 9] = [3, 4, 5, 6, 7, 8, 9]"
proof -
  have l: "length [65535, 65535, 65535, 65535, 65535, 65535, 65535 :: 16 word]
      = AP_MISSION_MAX_WP_HISTORY"
    by (simp add: AP_MISSION_MAX_WP_HISTORY_def)
  have k: "AP_MISSION_MAX_WP_HISTORY < length [1, 2, 3, 4, 5, 6, 7, 8, 9 :: 16 word]"
    by (simp add: AP_MISSION_MAX_WP_HISTORY_def)
  from wp_history_retains_most_recent [OF l k] l k show ?thesis
    by (simp add: AP_MISSION_MAX_WP_HISTORY_def)
qed

end
